theory Spec2Isabelle
  imports Main
begin

section \<open>Data model of ldap_proxy.go\<close>

text \<open>
  The development embeds the request dispatcher, the whitelist matcher, the sign-in
  handlers and the per-request authentication engine of \<^verbatim>\<open>ldap_proxy.go\<close>.
  Strings are byte strings. A Go \<^verbatim>\<open>error\<close> is its message, \<open>None\<close> being
  \<^verbatim>\<open>nil\<close>. A \<^verbatim>\<open>net.IP\<close> is a byte slice, \<open>None\<close> being the nil slice.
  A \<^verbatim>\<open>time.Duration\<close> is a number of nanoseconds. A nil string slice and an empty one
  are both \<open>[]\<close>: the code only ranges over them and takes their length.
\<close>

type_synonym IP = "nat list"
type_synonym Duration = int
type_synonym error = "string option"

text \<open>
  \<^verbatim>\<open>SessionState\<close> is declared in another file of the package; this file reads and
  writes its fields \<^verbatim>\<open>User\<close> and \<^verbatim>\<open>Email\<close> only, and builds sessions as
  \<^verbatim>\<open>&SessionState{User: user}\<close>, which leaves \<^verbatim>\<open>Email\<close> the empty string.
\<close>

record SessionState =
  User :: string
  Email :: string

text \<open>
  What the handlers read of a \<^verbatim>\<open>*http.Request\<close>. The header and the parsed form
  are given by their \<^verbatim>\<open>Get\<close> methods (the first value stored under a key, the empty
  string when there is none); \<open>ParseForm\<close> is the error of \<^verbatim>\<open>req.ParseForm()\<close>.
\<close>

record Request =
  Method :: string
  URL_Path :: string
  RequestURI :: string
  RemoteAddr :: string
  Header_Get :: "string \<Rightarrow> string"
  ParseForm :: error
  Form_Get :: "string \<Rightarrow> string"

text \<open>
  The fields of \<^verbatim>\<open>LdapProxy\<close> that the embedded functions use. A compiled regular
  expression is given by its \<^verbatim>\<open>MatchString\<close> method, a \<^verbatim>\<open>*net.IPNet\<close> by its
  \<^verbatim>\<open>Contains\<close> method, and the \<^verbatim>\<open>*HtpasswdFile\<close> (nil when no file is
  configured) by its \<^verbatim>\<open>Validate\<close> method.
\<close>

record LdapProxy =
  CookieExpire :: Duration
  CookieRefresh :: Duration
  Validator :: "string \<Rightarrow> bool"
  RobotsPath :: string
  PingPath :: string
  SignInPath :: string
  SignOutPath :: string
  AuthOnlyPath :: string
  HtpasswdFile :: "(string \<Rightarrow> string \<Rightarrow> bool) option"
  SetXAuthRequest :: bool
  PassBasicAuth :: bool
  PassUserHeaders :: bool
  BasicAuthPassword :: string
  RealIPHeader :: string
  ProxyIPHeader :: string
  LdapGroups :: "string list"
  skipAuthIPs :: "(IP \<Rightarrow> bool) list"
  skipAuthPreflight :: bool
  compiledPathRegex :: "(string \<Rightarrow> bool) list"

text \<open>
  The directory client of \<^verbatim>\<open>ldap.go\<close>, by its two methods:
  \<^verbatim>\<open>Authenticate(user, passwd)\<close> returns \<^verbatim>\<open>(ok, attributes, err)\<close> and
  \<^verbatim>\<open>GetGroupsOfUser(dn)\<close> returns \<^verbatim>\<open>(groups, err)\<close>. A missing key of the
  attribute map reads as the empty string, as in Go.
\<close>

record LDAPClient =
  ldap_Authenticate :: "string \<Rightarrow> string \<Rightarrow> bool \<times> (string \<Rightarrow> string) \<times> error"
  GetGroupsOfUser :: "string \<Rightarrow> string list \<times> error"

text \<open>
  Everything the embedded functions call that is written elsewhere: the session helpers of
  the package (\<^verbatim>\<open>LoadCookiedSession\<close>, \<^verbatim>\<open>RefreshSessionIfNeeded\<close>,
  \<^verbatim>\<open>SessionState.IsExpired\<close>, \<^verbatim>\<open>ValidateSessionState\<close>, \<^verbatim>\<open>SaveSession\<close>,
  \<^verbatim>\<open>NewLDAPClient\<close>) and the Go library (\<^verbatim>\<open>net.ParseIP\<close>,
  \<^verbatim>\<open>strings.ToLower\<close>, \<^verbatim>\<open>base64.StdEncoding.DecodeString\<close>). They are
  parameters: every theorem below holds for whatever they compute. The hooks that receive
  the session pointer are taken to read the session without changing its fields.
\<close>

record Externals =
  LoadCookiedSession :: "Request \<Rightarrow> SessionState option \<times> Duration \<times> error"
  RefreshSessionIfNeeded :: "SessionState option \<Rightarrow> bool \<times> error"
  IsExpired :: "SessionState \<Rightarrow> bool"
  ValidateSessionState :: "SessionState \<Rightarrow> bool"
  SaveSession :: "Request \<Rightarrow> SessionState \<Rightarrow> error"
  NewLDAPClient :: "string + LDAPClient"
  ParseIP :: "string \<Rightarrow> IP option"
  ToLower :: "string \<Rightarrow> string"
  DecodeString :: "string \<Rightarrow> string + string"

text \<open>
  What a handler does to the response writer and to the forwarded request, in order.
  \<open>SaveSession_call\<close> is the call that signs and sets the session cookie,
  \<open>ClearSessionCookie_call\<close> the call that expires it.
\<close>

datatype effect =
    SaveSession_call SessionState
  | ClearSessionCookie_call
  | WriteHeader nat
  | Render_sign_in bool string
  | Render_error nat string string
  | Redirect string nat
  | http_Error string nat
  | SetBasicAuth string string
  | Set_request_header string string
  | Set_response_header string string
  | serveMux_ServeHTTP

abbreviation StatusOK :: nat where "StatusOK \<equiv> 200"
abbreviation StatusAccepted :: nat where "StatusAccepted \<equiv> 202"
abbreviation StatusFound :: nat where "StatusFound \<equiv> 302"
abbreviation StatusTemporaryRedirect :: nat where "StatusTemporaryRedirect \<equiv> 307"
abbreviation StatusUnauthorized :: nat where "StatusUnauthorized \<equiv> 401"
abbreviation StatusForbidden :: nat where "StatusForbidden \<equiv> 403"
abbreviation StatusInternalServerError :: nat where "StatusInternalServerError \<equiv> 500"

section \<open>String helpers of the Go library used by the file\<close>

text \<open>\<^verbatim>\<open>strings.HasPrefix(s, prefix)\<close>.\<close>

definition HasPrefix :: "string \<Rightarrow> string \<Rightarrow> bool" where
  "HasPrefix s pre = (length pre \<le> length s \<and> take (length pre) s = pre)"

text \<open>
  \<^verbatim>\<open>strings.SplitN(s, sep, 2)\<close> for a one-byte separator: the string itself when the
  separator does not occur, else the parts before and after its first occurrence.
\<close>

definition SplitN_2 :: "string \<Rightarrow> char \<Rightarrow> string list" where
  "SplitN_2 s sep =
     (if sep \<in> set s
      then [takeWhile (\<lambda>c. c \<noteq> sep) s, tl (dropWhile (\<lambda>c. c \<noteq> sep) s)]
      else [s])"

section \<open>Sign-in pages and redirect target\<close>

definition ErrorPage :: "nat \<Rightarrow> string \<Rightarrow> string \<Rightarrow> effect list" where
  "ErrorPage code title message = [WriteHeader code, Render_error code title message]"

definition SignInPage :: "LdapProxy \<Rightarrow> Request \<Rightarrow> nat \<Rightarrow> bool \<Rightarrow> effect list" where
  "SignInPage p req code failed =
     (let redirectURL = RequestURI req;
          redirectURL = (if Header_Get req ''X-Auth-Request-Redirect'' \<noteq> []
                         then Header_Get req ''X-Auth-Request-Redirect'' else redirectURL);
          redirectURL = (if redirectURL = SignInPath p then ''/'' else redirectURL)
      in [ClearSessionCookie_call, WriteHeader code, Render_sign_in failed redirectURL])"

definition GetRedirect :: "Request \<Rightarrow> string \<times> error" where
  "GetRedirect req =
     (case ParseForm req of
        Some err \<Rightarrow> ([], Some err)
      | None \<Rightarrow>
          (let redirect = Form_Get req ''rd''
           in (if redirect = [] \<or> \<not> HasPrefix redirect ''/'' \<or> HasPrefix redirect ''//''
               then ''/'' else redirect, None)))"

section \<open>Whitelist matcher and dispatcher\<close>

fun IsWhitelistedIP_loop :: "(IP \<Rightarrow> bool) list \<Rightarrow> IP \<Rightarrow> bool" where
  "IsWhitelistedIP_loop [] remoteAddr = False"
| "IsWhitelistedIP_loop (c # cs) remoteAddr =
     (if c remoteAddr then True else IsWhitelistedIP_loop cs remoteAddr)"

definition IsWhitelistedIP :: "LdapProxy \<Rightarrow> IP option \<Rightarrow> bool" where
  "IsWhitelistedIP p remoteAddr =
     (case remoteAddr of
        None \<Rightarrow> False
      | Some ip \<Rightarrow> IsWhitelistedIP_loop (skipAuthIPs p) ip)"

fun IsWhitelistedPath_loop :: "(string \<Rightarrow> bool) list \<Rightarrow> string \<Rightarrow> bool" where
  "IsWhitelistedPath_loop [] path = False"
| "IsWhitelistedPath_loop (u # us) path =
     (if u path then True else IsWhitelistedPath_loop us path)"

definition IsWhitelistedPath :: "LdapProxy \<Rightarrow> string \<Rightarrow> bool" where
  "IsWhitelistedPath p path = IsWhitelistedPath_loop (compiledPathRegex p) path"

definition getRemoteAddr :: "LdapProxy \<Rightarrow> Externals \<Rightarrow> Request \<Rightarrow> IP option" where
  "getRemoteAddr p ext req =
     (let remoteAddrstr = SplitN_2 (RemoteAddr req) CHR '':'' ! 0;
          ip = ParseIP ext remoteAddrstr;
          ip = (if Header_Get req (RealIPHeader p) \<noteq> []
                then ParseIP ext (Header_Get req (RealIPHeader p)) else ip);
          ip = (if Header_Get req (ProxyIPHeader p) \<noteq> []
                then ParseIP ext (Header_Get req (ProxyIPHeader p)) else ip)
      in ip)"

definition IsWhitelistedRequest :: "LdapProxy \<Rightarrow> Externals \<Rightarrow> Request \<Rightarrow> bool" where
  "IsWhitelistedRequest p ext req =
     (let isPreflightRequestAllowed = (skipAuthPreflight p \<and> Method req = ''OPTIONS'')
      in isPreflightRequestAllowed \<or> IsWhitelistedPath p (URL_Path req)
         \<or> IsWhitelistedIP p (getRemoteAddr p ext req))"

text \<open>The handler that the switch of \<^verbatim>\<open>ServeHTTP\<close> hands the request to.\<close>

datatype route =
    To_RobotsTxt | To_PingPage | To_serveMux | To_SignIn | To_SignOut
  | To_AuthenticateOnly | To_Proxy

definition ServeHTTP :: "LdapProxy \<Rightarrow> Externals \<Rightarrow> Request \<Rightarrow> route" where
  "ServeHTTP p ext req =
     (let path = URL_Path req
      in if path = RobotsPath p then To_RobotsTxt
         else if path = PingPath p then To_PingPage
         else if IsWhitelistedRequest p ext req then To_serveMux
         else if path = SignInPath p then To_SignIn
         else if path = SignOutPath p then To_SignOut
         else if path = AuthOnlyPath p then To_AuthenticateOnly
         else To_Proxy)"

section \<open>Credential providers and the sign-in handler\<close>

definition ManualSignIn :: "LdapProxy \<Rightarrow> Request \<Rightarrow> string \<times> bool" where
  "ManualSignIn p req =
     (if Method req \<noteq> ''POST'' \<or> HtpasswdFile p = None then ([], False)
      else
        (let user = Form_Get req ''username'';
             passwd = Form_Get req ''password''
         in if user = [] then ([], False)
            else
              (case HtpasswdFile p of
                 Some Validate \<Rightarrow>
                   if Validate user passwd then (user, True) else ([], False)
               | None \<Rightarrow> ([], False))))"

definition LdapSignIn :: "Externals \<Rightarrow> Request \<Rightarrow> string \<times> string list \<times> bool" where
  "LdapSignIn ext req =
     (let user = Form_Get req ''username'';
          passwd = Form_Get req ''password''
      in if user = [] then ([], [], False)
         else
           (case NewLDAPClient ext of
              Inl err \<Rightarrow> ([], [], False)
            | Inr ldapClient \<Rightarrow>
                (case ldap_Authenticate ldapClient user passwd of
                   (ok, attributes, Some err) \<Rightarrow> ([], [], False)
                 | (ok, attributes, None) \<Rightarrow>
                     if ok then
                       (case GetGroupsOfUser ldapClient (attributes ''dn'') of
                          (groups, Some err) \<Rightarrow> (user, [], True)
                        | (groups, None) \<Rightarrow> (user, groups, True))
                     else ([], [], False))))"

text \<open>The inner and the outer loop of \<^verbatim>\<open>sliceContainsString\<close>.\<close>

fun sliceContainsString_inner :: "Externals \<Rightarrow> string \<Rightarrow> string list \<Rightarrow> bool" where
  "sliceContainsString_inner ext aItem [] = False"
| "sliceContainsString_inner ext aItem (bItem # b) =
     (if ToLower ext aItem = ToLower ext bItem then True
      else sliceContainsString_inner ext aItem b)"

fun sliceContainsString :: "Externals \<Rightarrow> string list \<Rightarrow> string list \<Rightarrow> bool" where
  "sliceContainsString ext [] b = False"
| "sliceContainsString ext (aItem # a) b =
     (if sliceContainsString_inner ext aItem b then True
      else sliceContainsString ext a b)"

text \<open>
  \<^verbatim>\<open>SignIn\<close>. An error of \<^verbatim>\<open>SaveSession\<close> is only logged there, so the effects
  are the same whether the call fails or not.
\<close>

definition SignIn :: "LdapProxy \<Rightarrow> Externals \<Rightarrow> Request \<Rightarrow> effect list" where
  "SignIn p ext req =
     (case GetRedirect req of
        (redirect, Some err) \<Rightarrow> ErrorPage 500 ''Internal Error'' err
      | (redirect, None) \<Rightarrow>
          (case ManualSignIn p req of
             (user, True) \<Rightarrow>
               [SaveSession_call \<lparr>User = user, Email = []\<rparr>, Redirect redirect StatusFound]
           | (user, False) \<Rightarrow>
               (case LdapSignIn ext req of
                  (user, groups, ok) \<Rightarrow>
                    (let session = \<lparr>User = user, Email = []\<rparr>
                     in if \<not> ok then SignInPage p req StatusOK True
                        else if length (LdapGroups p) > 0 then
                          (if sliceContainsString ext (LdapGroups p) groups
                           then [SaveSession_call session, Redirect redirect StatusFound]
                           else SignInPage p req StatusUnauthorized True)
                        else [SaveSession_call session, Redirect redirect StatusFound]))))"

definition SignOut :: "effect list" where
  "SignOut = [ClearSessionCookie_call, Redirect ''/'' StatusTemporaryRedirect]"

definition CheckBasicAuth :: "LdapProxy \<Rightarrow> Externals \<Rightarrow> Request \<Rightarrow> SessionState option \<times> error" where
  "CheckBasicAuth p ext req =
     (case HtpasswdFile p of
        None \<Rightarrow> (None, None)
      | Some Validate \<Rightarrow>
          (let auth = Header_Get req ''Authorization''
           in if auth = [] then (None, None)
              else
                (let s = SplitN_2 auth CHR '' ''
                 in if length s \<noteq> 2 \<or> s ! 0 \<noteq> ''Basic''
                    then (None, Some (''invalid Authorization header '' @ auth))
                    else
                      (case DecodeString ext (s ! 1) of
                         Inl err \<Rightarrow> (None, Some err)
                       | Inr b \<Rightarrow>
                           (let pair = SplitN_2 b CHR '':''
                            in if length pair \<noteq> 2 then (None, Some (''invalid format '' @ b))
                               else if Validate (pair ! 0) (pair ! 1)
                               then (Some \<lparr>User = pair ! 0, Email = []\<rparr>, None)
                               else (None, Some (pair ! 0 @ '' not in HtpasswdFile'')))))))"

section \<open>The authentication engine\<close>

text \<open>
  The local variables of \<^verbatim>\<open>Authenticate\<close>. Each block of the function up to the
  save is one step on this state, in the order of the source.
\<close>

record auth_state =
  session :: "SessionState option"
  saveSession :: bool
  clearSession :: bool
  revalidated :: bool

text \<open>The refresh interval has passed: the cookie is to be issued again.\<close>

definition auth_refresh_due :: "LdapProxy \<Rightarrow> Duration \<Rightarrow> auth_state \<Rightarrow> auth_state" where
  "auth_refresh_due p sessionAge st =
     (if session st \<noteq> None \<and> sessionAge > CookieRefresh p \<and> CookieRefresh p \<noteq> 0
      then st\<lparr>saveSession := True\<rparr> else st)"

text \<open>The call of \<^verbatim>\<open>RefreshSessionIfNeeded\<close>.\<close>

definition auth_refresh_hook :: "Externals \<Rightarrow> auth_state \<Rightarrow> auth_state" where
  "auth_refresh_hook ext st =
     (case RefreshSessionIfNeeded ext (session st) of
        (ok, Some err) \<Rightarrow> st\<lparr>clearSession := True, session := None\<rparr>
      | (ok, None) \<Rightarrow>
          if ok then st\<lparr>saveSession := True, revalidated := True\<rparr> else st)"

text \<open>The test of \<^verbatim>\<open>session.IsExpired()\<close>.\<close>

definition auth_expired :: "Externals \<Rightarrow> auth_state \<Rightarrow> auth_state" where
  "auth_expired ext st =
     (case session st of
        None \<Rightarrow> st
      | Some s \<Rightarrow>
          if IsExpired ext s
          then st\<lparr>session := None, saveSession := False, clearSession := True\<rparr>
          else st)"

text \<open>The call of \<^verbatim>\<open>ValidateSessionState\<close> before a save that the hook did not ask for.\<close>

definition auth_validate :: "Externals \<Rightarrow> auth_state \<Rightarrow> auth_state" where
  "auth_validate ext st =
     (case session st of
        None \<Rightarrow> st
      | Some s \<Rightarrow>
          if saveSession st \<and> \<not> revalidated st \<and> \<not> ValidateSessionState ext s
          then st\<lparr>saveSession := False, session := None, clearSession := True\<rparr>
          else st)"

text \<open>The identity-allow predicate on the session's email.\<close>

definition auth_policy :: "LdapProxy \<Rightarrow> auth_state \<Rightarrow> auth_state" where
  "auth_policy p st =
     (case session st of
        None \<Rightarrow> st
      | Some s \<Rightarrow>
          if Email s \<noteq> [] \<and> \<not> Validator p (Email s)
          then st\<lparr>session := None, saveSession := False, clearSession := True\<rparr>
          else st)"

text \<open>The state when \<^verbatim>\<open>Authenticate\<close> reaches the save.\<close>

definition auth_decide :: "LdapProxy \<Rightarrow> Externals \<Rightarrow> Request \<Rightarrow> auth_state" where
  "auth_decide p ext req =
     (case LoadCookiedSession ext req of
        (s, sessionAge, err) \<Rightarrow>
          auth_policy p (auth_validate ext (auth_expired ext (auth_refresh_hook ext
            (auth_refresh_due p sessionAge
               \<lparr>session = s, saveSession = False, clearSession = False,
                revalidated = False\<rparr>)))))"

text \<open>The headers set once the user is authenticated.\<close>

definition auth_headers :: "LdapProxy \<Rightarrow> SessionState \<Rightarrow> effect list" where
  "auth_headers p s =
     (if PassBasicAuth p
      then [SetBasicAuth (User s) (BasicAuthPassword p),
            Set_request_header ''X-Forwarded-User'' (User s)]
           @ (if Email s \<noteq> [] then [Set_request_header ''X-Forwarded-Email'' (Email s)] else [])
      else [])
     @ (if PassUserHeaders p
        then [Set_request_header ''X-Forwarded-User'' (User s)]
             @ (if Email s \<noteq> [] then [Set_request_header ''X-Forwarded-Email'' (Email s)] else [])
        else [])
     @ (if SetXAuthRequest p
        then [Set_response_header ''X-Auth-Request-User'' (User s)]
             @ (if Email s \<noteq> [] then [Set_response_header ''X-Auth-Request-Email'' (Email s)] else [])
        else [])
     @ (if Email s = [] then [Set_response_header ''LAP-Auth'' (User s)]
        else [Set_response_header ''LAP-Auth'' (Email s)])"

text \<open>From the clearing of the cookie to the return.\<close>

definition auth_finish :: "LdapProxy \<Rightarrow> Externals \<Rightarrow> Request \<Rightarrow> auth_state \<Rightarrow> nat \<times> effect list" where
  "auth_finish p ext req st =
     (let cleared = (if clearSession st then [ClearSessionCookie_call] else []);
          session' = (case session st of
                        None \<Rightarrow> fst (CheckBasicAuth p ext req)
                      | Some s \<Rightarrow> Some s)
      in case session' of
           None \<Rightarrow> (StatusForbidden, cleared)
         | Some s \<Rightarrow> (StatusAccepted, cleared @ auth_headers p s))"

definition Authenticate :: "LdapProxy \<Rightarrow> Externals \<Rightarrow> Request \<Rightarrow> nat \<times> effect list" where
  "Authenticate p ext req =
     (let st = auth_decide p ext req
      in case (if saveSession st then session st else None) of
           None \<Rightarrow> auth_finish p ext req st
         | Some s \<Rightarrow>
             (case SaveSession ext req s of
                Some err \<Rightarrow> (StatusInternalServerError, [SaveSession_call s])
              | None \<Rightarrow>
                  (case auth_finish p ext req st of
                     (status, effects) \<Rightarrow> (status, SaveSession_call s # effects))))"

definition AuthenticateOnly :: "LdapProxy \<Rightarrow> Externals \<Rightarrow> Request \<Rightarrow> effect list" where
  "AuthenticateOnly p ext req =
     (case Authenticate p ext req of
        (status, effects) \<Rightarrow>
          if status = StatusAccepted then effects @ [WriteHeader StatusAccepted]
          else effects @ [http_Error ''unauthorized request'' StatusUnauthorized])"

definition Proxy :: "LdapProxy \<Rightarrow> Externals \<Rightarrow> Request \<Rightarrow> effect list" where
  "Proxy p ext req =
     (case Authenticate p ext req of
        (status, effects) \<Rightarrow>
          if status = StatusInternalServerError
          then effects @ ErrorPage StatusInternalServerError ''Internal Error'' ''Internal Error''
          else if status = StatusForbidden
          then effects @ SignInPage p req StatusForbidden False
          else effects @ [serveMux_ServeHTTP])"

section \<open>A configuration and requests to evaluate the functions on\<close>

text \<open>
  A proxy with a credential file holding \<open>alice\<close>, no group allow-list, no whitelist rule,
  and the usual header names; a directory that binds \<open>carol\<close> and returns her groups; a
  cookie store that knows one session, \<open>bob\<close> with an email. The library functions are given
  on the strings that the examples use.
\<close>

definition example_proxy :: LdapProxy where
  "example_proxy =
     \<lparr>CookieExpire = 3600, CookieRefresh = 0, Validator = (\<lambda>email. True),
      RobotsPath = ''/robots.txt'', PingPath = ''/ping'',
      SignInPath = ''/ldap/sign_in'', SignOutPath = ''/ldap/sign_out'',
      AuthOnlyPath = ''/ldap/auth'',
      HtpasswdFile = Some (\<lambda>user passwd. user = ''alice'' \<and> passwd = ''secret''),
      SetXAuthRequest = False, PassBasicAuth = False, PassUserHeaders = False,
      BasicAuthPassword = [],
      RealIPHeader = ''X-Real-IP'', ProxyIPHeader = ''X-Forwarded-For'',
      LdapGroups = [], skipAuthIPs = [], skipAuthPreflight = False,
      compiledPathRegex = []\<rparr>"

definition example_ldapClient :: LDAPClient where
  "example_ldapClient =
     \<lparr>ldap_Authenticate =
        (\<lambda>user passwd.
           if user = ''carol'' \<and> passwd = ''pw''
           then (True, (\<lambda>k. if k = ''dn'' then ''uid=carol,dc=example'' else []), None)
           else (False, (\<lambda>k. []), None)),
      GetGroupsOfUser =
        (\<lambda>dn. if dn = ''uid=carol,dc=example'' then ([''eng'', ''ops''], None)
              else ([], Some ''no such object''))\<rparr>"

definition example_ToLower :: "string \<Rightarrow> string" where
  "example_ToLower s =
     map (\<lambda>c. case map_of (zip ''ABCDEFGHIJKLMNOPQRSTUVWXYZ'' ''abcdefghijklmnopqrstuvwxyz'') c of
                 Some l \<Rightarrow> l
               | None \<Rightarrow> c) s"

definition example_ext :: Externals where
  "example_ext =
     \<lparr>LoadCookiedSession =
        (\<lambda>req. if Header_Get req ''Cookie'' = ''_ldap_proxy=bob''
               then (Some \<lparr>User = ''bob'', Email = ''bob@example.com''\<rparr>, 120, None)
               else (None, 0, Some ''Cookie not present'')),
      RefreshSessionIfNeeded = (\<lambda>s. (False, None)),
      IsExpired = (\<lambda>s. False),
      ValidateSessionState = (\<lambda>s. True),
      SaveSession = (\<lambda>req s. None),
      NewLDAPClient = Inr example_ldapClient,
      ParseIP =
        (\<lambda>s. if s = ''10.0.0.1'' then Some [10, 0, 0, 1]
              else if s = ''192.168.1.7'' then Some [192, 168, 1, 7]
              else if s = ''127.0.0.1'' then Some [127, 0, 0, 1]
              else None),
      ToLower = example_ToLower,
      DecodeString =
        (\<lambda>s. if s = ''YWxpY2U6c2VjcmV0'' then Inr ''alice:secret''
              else Inl ''illegal base64 data'')\<rparr>"

definition example_request :: Request where
  "example_request =
     \<lparr>Method = ''GET'', URL_Path = ''/private/page'', RequestURI = ''/private/page'',
      RemoteAddr = ''127.0.0.1:51234'', Header_Get = (\<lambda>k. []), ParseForm = None,
      Form_Get = (\<lambda>k. [])\<rparr>"

definition example_proxy_rejecting :: LdapProxy where
  "example_proxy_rejecting = example_proxy\<lparr>Validator := (\<lambda>email. False)\<rparr>"

definition example_ldapClient_group_error :: LDAPClient where
  "example_ldapClient_group_error =
     example_ldapClient\<lparr>GetGroupsOfUser := (\<lambda>dn. ([], Some ''timeout''))\<rparr>"

definition example_ext_group_error :: Externals where
  "example_ext_group_error = example_ext\<lparr>NewLDAPClient := Inr example_ldapClient_group_error\<rparr>"

definition with_header :: "string \<Rightarrow> string \<Rightarrow> Request \<Rightarrow> Request" where
  "with_header k v req = req\<lparr>Header_Get := (Header_Get req)(k := v)\<rparr>"

definition with_form :: "string \<Rightarrow> string \<Rightarrow> Request \<Rightarrow> Request" where
  "with_form k v req = req\<lparr>Form_Get := (Form_Get req)(k := v)\<rparr>"

section \<open>Client address and IP whitelist\<close>

lemma takeWhile_no_sep: "sep \<notin> set s \<Longrightarrow> takeWhile (\<lambda>c. c \<noteq> sep) s = s"
  by (induction s) auto

lemma getRemoteAddr_source:
  "getRemoteAddr p ext req =
     ParseIP ext
       (if Header_Get req (ProxyIPHeader p) \<noteq> [] then Header_Get req (ProxyIPHeader p)
        else if Header_Get req (RealIPHeader p) \<noteq> [] then Header_Get req (RealIPHeader p)
        else takeWhile (\<lambda>c. c \<noteq> CHR '':'') (RemoteAddr req))"
  by (simp add: getRemoteAddr_def SplitN_2_def Let_def takeWhile_no_sep)

lemmas example_defs =
  example_proxy_def example_ext_def example_request_def example_ldapClient_def
  example_ToLower_def with_header_def with_form_def example_proxy_rejecting_def
  example_ldapClient_group_error_def example_ext_group_error_def

text \<open>
  Claim C2, as the specification states it, fails: with both headers present the resolved
  client address is the one of the proxy-IP header, not the one of the real-IP header.
  Here \<^verbatim>\<open>X-Real-IP: 10.0.0.1\<close> and \<^verbatim>\<open>X-Forwarded-For: 192.168.1.7\<close> resolve
  to 192.168.1.7.
\<close>

theorem getRemoteAddr_both_headers_counterexample:
  "Header_Get (with_header ''X-Real-IP'' ''10.0.0.1''
       (with_header ''X-Forwarded-For'' ''192.168.1.7'' example_request))
     (RealIPHeader example_proxy) = ''10.0.0.1''
   \<and> Header_Get (with_header ''X-Real-IP'' ''10.0.0.1''
       (with_header ''X-Forwarded-For'' ''192.168.1.7'' example_request))
     (ProxyIPHeader example_proxy) = ''192.168.1.7''
   \<and> ParseIP example_ext ''10.0.0.1'' = Some [10, 0, 0, 1]
   \<and> getRemoteAddr example_proxy example_ext
        (with_header ''X-Real-IP'' ''10.0.0.1''
           (with_header ''X-Forwarded-For'' ''192.168.1.7'' example_request))
      = Some [192, 168, 1, 7]"
  by (simp add: getRemoteAddr_def example_defs SplitN_2_def)

text \<open>
  Claim C2, amended: the resolved client address is parsed from the proxy-IP header when
  that header is non-empty; only when it is empty from the real-IP header; and only when
  both are empty from the peer address, cut at its first colon. With both headers present
  the proxy-IP header's value is the one resolved.
\<close>

theorem getRemoteAddr_priority:
  "(Header_Get req (ProxyIPHeader p) \<noteq> [] \<longrightarrow>
      getRemoteAddr p ext req = ParseIP ext (Header_Get req (ProxyIPHeader p)))
   \<and> (Header_Get req (ProxyIPHeader p) = [] \<and> Header_Get req (RealIPHeader p) \<noteq> [] \<longrightarrow>
      getRemoteAddr p ext req = ParseIP ext (Header_Get req (RealIPHeader p)))
   \<and> (Header_Get req (ProxyIPHeader p) = [] \<and> Header_Get req (RealIPHeader p) = [] \<longrightarrow>
      getRemoteAddr p ext req
        = ParseIP ext (takeWhile (\<lambda>c. c \<noteq> CHR '':'') (RemoteAddr req)))"
  by (simp add: getRemoteAddr_source)

theorem getRemoteAddr_priority_witness:
  "getRemoteAddr example_proxy example_ext
     (with_header ''X-Real-IP'' ''10.0.0.1''
        (with_header ''X-Forwarded-For'' ''192.168.1.7'' example_request))
     = Some [192, 168, 1, 7]
   \<and> getRemoteAddr example_proxy example_ext
        (with_header ''X-Real-IP'' ''10.0.0.1'' example_request)
     = Some [10, 0, 0, 1]
   \<and> getRemoteAddr example_proxy example_ext example_request = Some [127, 0, 0, 1]"
  using
    getRemoteAddr_priority [of "with_header ''X-Real-IP'' ''10.0.0.1''
        (with_header ''X-Forwarded-For'' ''192.168.1.7'' example_request)"
        example_proxy example_ext]
    getRemoteAddr_priority [of "with_header ''X-Real-IP'' ''10.0.0.1'' example_request"
        example_proxy example_ext]
    getRemoteAddr_priority [of example_request example_proxy example_ext]
  by (simp add: example_defs)

text \<open>
  Claim C9: when the string that the resolution selects (the proxy-IP header if non-empty,
  else the real-IP header if non-empty, else the peer address up to its first colon) does
  not parse, the resolved address is nil and the IP whitelist check is false, whatever
  networks are configured. In particular a non-empty proxy-IP header that does not parse
  wins over a peer address that does.
\<close>

theorem unparseable_client_ip_not_whitelisted:
  assumes "ParseIP ext
       (if Header_Get req (ProxyIPHeader p) \<noteq> [] then Header_Get req (ProxyIPHeader p)
        else if Header_Get req (RealIPHeader p) \<noteq> [] then Header_Get req (RealIPHeader p)
        else takeWhile (\<lambda>c. c \<noteq> CHR '':'') (RemoteAddr req)) = None"
  shows "getRemoteAddr p ext req = None
         \<and> IsWhitelistedIP p (getRemoteAddr p ext req) = False
         \<and> IsWhitelistedIP (p\<lparr>skipAuthIPs := nets\<rparr>) (getRemoteAddr p ext req) = False"
  using assms by (simp add: getRemoteAddr_source IsWhitelistedIP_def)

theorem unparseable_client_ip_not_whitelisted_witness:
  "Header_Get (with_header ''X-Forwarded-For'' ''unknown'' example_request)
     (ProxyIPHeader example_proxy) = ''unknown''
   \<and> ParseIP example_ext ''unknown'' = None
   \<and> ParseIP example_ext
       (takeWhile (\<lambda>c. c \<noteq> CHR '':'') (RemoteAddr example_request)) = Some [127, 0, 0, 1]
   \<and> IsWhitelistedIP (example_proxy\<lparr>skipAuthIPs := [\<lambda>ip. True]\<rparr>)
        (getRemoteAddr example_proxy example_ext example_request) = True
   \<and> getRemoteAddr example_proxy example_ext
        (with_header ''X-Forwarded-For'' ''unknown'' example_request) = None
   \<and> IsWhitelistedIP (example_proxy\<lparr>skipAuthIPs := [\<lambda>ip. True]\<rparr>)
        (getRemoteAddr example_proxy example_ext
           (with_header ''X-Forwarded-For'' ''unknown'' example_request)) = False"
  using unparseable_client_ip_not_whitelisted
    [of example_ext "with_header ''X-Forwarded-For'' ''unknown'' example_request"
        example_proxy "[\<lambda>ip. True]"]
  by (simp add: example_defs getRemoteAddr_def SplitN_2_def IsWhitelistedIP_def)

section \<open>Dispatcher\<close>

text \<open>
  Claim C5, as the specification states it, fails: the whitelist check stands before the
  sign-in, sign-out and auth-only cases of the switch. With the preflight bypass enabled,
  an \<^verbatim>\<open>OPTIONS\<close> request to the sign-in path is handed to the upstream router.
\<close>

theorem ServeHTTP_whitelisted_sign_in_counterexample:
  "URL_Path (example_request\<lparr>Method := ''OPTIONS'', URL_Path := ''/ldap/sign_in''\<rparr>)
     = SignInPath (example_proxy\<lparr>skipAuthPreflight := True\<rparr>)
   \<and> IsWhitelistedRequest (example_proxy\<lparr>skipAuthPreflight := True\<rparr>) example_ext
        (example_request\<lparr>Method := ''OPTIONS'', URL_Path := ''/ldap/sign_in''\<rparr>)
   \<and> ServeHTTP (example_proxy\<lparr>skipAuthPreflight := True\<rparr>) example_ext
        (example_request\<lparr>Method := ''OPTIONS'', URL_Path := ''/ldap/sign_in''\<rparr>)
      = To_serveMux"
  by (simp add: ServeHTTP_def IsWhitelistedRequest_def example_defs Let_def)

text \<open>
  Claim C5, amended: a request whose path is the robots path, or else the ping path, is
  handled as that system path before the whitelist check is consulted. A request to any
  other path that matches a whitelist rule is routed to the upstream, also when its path is
  the sign-in, sign-out or auth-only path; these three are handled as system paths only
  for requests that match no whitelist rule.
\<close>

theorem ServeHTTP_system_paths:
  "(URL_Path req = RobotsPath p \<longrightarrow> ServeHTTP p ext req = To_RobotsTxt)
   \<and> (URL_Path req \<noteq> RobotsPath p \<and> URL_Path req = PingPath p \<longrightarrow>
        ServeHTTP p ext req = To_PingPage)
   \<and> (URL_Path req \<noteq> RobotsPath p \<and> URL_Path req \<noteq> PingPath p
        \<and> IsWhitelistedRequest p ext req \<longrightarrow>
        ServeHTTP p ext req = To_serveMux)
   \<and> (URL_Path req \<noteq> RobotsPath p \<and> URL_Path req \<noteq> PingPath p
        \<and> \<not> IsWhitelistedRequest p ext req \<longrightarrow>
        ServeHTTP p ext req =
          (if URL_Path req = SignInPath p then To_SignIn
           else if URL_Path req = SignOutPath p then To_SignOut
           else if URL_Path req = AuthOnlyPath p then To_AuthenticateOnly
           else To_Proxy))"
  by (auto simp: ServeHTTP_def Let_def)

theorem ServeHTTP_system_paths_witness:
  "ServeHTTP (example_proxy\<lparr>skipAuthPreflight := True\<rparr>) example_ext
        (example_request\<lparr>Method := ''OPTIONS'', URL_Path := ''/robots.txt''\<rparr>) = To_RobotsTxt
   \<and> ServeHTTP (example_proxy\<lparr>skipAuthPreflight := True\<rparr>) example_ext
        (example_request\<lparr>Method := ''OPTIONS'', URL_Path := ''/ping''\<rparr>) = To_PingPage
   \<and> ServeHTTP (example_proxy\<lparr>skipAuthPreflight := True\<rparr>) example_ext
        (example_request\<lparr>Method := ''OPTIONS'', URL_Path := ''/ldap/sign_out''\<rparr>) = To_serveMux
   \<and> ServeHTTP (example_proxy\<lparr>skipAuthPreflight := True\<rparr>) example_ext
        (example_request\<lparr>Method := ''GET'', URL_Path := ''/ldap/sign_out''\<rparr>) = To_SignOut"
  using
    ServeHTTP_system_paths [of "example_request\<lparr>Method := ''OPTIONS'', URL_Path := ''/robots.txt''\<rparr>"
       "example_proxy\<lparr>skipAuthPreflight := True\<rparr>" example_ext]
    ServeHTTP_system_paths [of "example_request\<lparr>Method := ''OPTIONS'', URL_Path := ''/ping''\<rparr>"
       "example_proxy\<lparr>skipAuthPreflight := True\<rparr>" example_ext]
    ServeHTTP_system_paths [of "example_request\<lparr>Method := ''OPTIONS'', URL_Path := ''/ldap/sign_out''\<rparr>"
       "example_proxy\<lparr>skipAuthPreflight := True\<rparr>" example_ext]
    ServeHTTP_system_paths [of "example_request\<lparr>Method := ''GET'', URL_Path := ''/ldap/sign_out''\<rparr>"
       "example_proxy\<lparr>skipAuthPreflight := True\<rparr>" example_ext]
  by (simp add: example_defs IsWhitelistedRequest_def IsWhitelistedPath_def IsWhitelistedIP_def
      getRemoteAddr_def SplitN_2_def)

section \<open>Redirect target\<close>

lemma HasPrefix_slash: "HasPrefix s ''/'' \<longleftrightarrow> (\<exists>t. s = CHR ''/'' # t)"
  by (cases s) (auto simp: HasPrefix_def)

lemma HasPrefix_slash_slash: "HasPrefix s ''//'' \<longleftrightarrow> (\<exists>t. s = CHR ''/'' # CHR ''/'' # t)"
proof (cases s)
  case Nil
  then show ?thesis by (simp add: HasPrefix_def)
next
  case (Cons a t)
  then show ?thesis by (cases t) (auto simp: HasPrefix_def)
qed

text \<open>
  Claim C7: when the form parses, the redirect target is the \<^verbatim>\<open>rd\<close> parameter as
  given if it starts with a slash that is not followed by a second slash, and \<^verbatim>\<open>/\<close>
  in every other case (empty or missing, not starting with a slash, starting with two).
\<close>

theorem GetRedirect_target:
  assumes "ParseForm req = None"
  shows "snd (GetRedirect req) = None
         \<and> ((\<exists>t. Form_Get req ''rd'' = CHR ''/'' # t \<and> (\<forall>u. t \<noteq> CHR ''/'' # u)) \<longrightarrow>
              fst (GetRedirect req) = Form_Get req ''rd'')
         \<and> (\<not> (\<exists>t. Form_Get req ''rd'' = CHR ''/'' # t \<and> (\<forall>u. t \<noteq> CHR ''/'' # u)) \<longrightarrow>
              fst (GetRedirect req) = ''/'')"
  using assms
  by (auto simp: GetRedirect_def Let_def HasPrefix_slash HasPrefix_slash_slash)

theorem GetRedirect_target_witness:
  "ParseForm (with_form ''rd'' ''/app/home'' example_request) = None
   \<and> GetRedirect (with_form ''rd'' ''/app/home'' example_request) = (''/app/home'', None)
   \<and> GetRedirect (with_form ''rd'' ''//evil.example/x'' example_request) = (''/'', None)
   \<and> GetRedirect (with_form ''rd'' ''https://evil.example/'' example_request) = (''/'', None)
   \<and> GetRedirect (with_form ''rd'' ''app/home'' example_request) = (''/'', None)
   \<and> GetRedirect example_request = (''/'', None)"
  using GetRedirect_target [of "with_form ''rd'' ''/app/home'' example_request"]
    GetRedirect_target [of "with_form ''rd'' ''//evil.example/x'' example_request"]
    GetRedirect_target [of "with_form ''rd'' ''https://evil.example/'' example_request"]
    GetRedirect_target [of "with_form ''rd'' ''app/home'' example_request"]
    GetRedirect_target [of example_request]
  by (simp add: example_defs GetRedirect_def HasPrefix_def)

section \<open>Sign-in\<close>

lemma sliceContainsString_inner_iff:
  "sliceContainsString_inner ext aItem b \<longleftrightarrow> (\<exists>bItem\<in>set b. ToLower ext aItem = ToLower ext bItem)"
  by (induction b) auto

lemma sliceContainsString_iff:
  "sliceContainsString ext a b \<longleftrightarrow>
     (\<exists>aItem\<in>set a. \<exists>bItem\<in>set b. ToLower ext aItem = ToLower ext bItem)"
  by (induction a) (auto simp: sliceContainsString_inner_iff)

lemma sliceContainsString_no_groups: "sliceContainsString ext a [] = False"
  by (simp add: sliceContainsString_iff)

lemma SignIn_after_LdapSignIn:
  assumes "GetRedirect req = (redirect, None)"
      and "snd (ManualSignIn p req) = False"
      and "LdapSignIn ext req = (user, groups, True)"
  shows "SignIn p ext req =
           (if LdapGroups p \<noteq> [] \<and> \<not> sliceContainsString ext (LdapGroups p) groups
            then SignInPage p req StatusUnauthorized True
            else [SaveSession_call \<lparr>User = user, Email = []\<rparr>, Redirect redirect StatusFound])"
proof -
  obtain u where "ManualSignIn p req = (u, False)"
    using assms(2) by (cases "ManualSignIn p req") auto
  then show ?thesis
    using assms(1,3) by (simp add: SignIn_def Let_def)
qed

lemma SignIn_after_ManualSignIn:
  assumes "GetRedirect req = (redirect, None)"
      and "ManualSignIn p req = (user, True)"
  shows "SignIn p ext req =
           [SaveSession_call \<lparr>User = user, Email = []\<rparr>, Redirect redirect StatusFound]"
  using assms by (simp add: SignIn_def)

text \<open>
  Claim C3, as the specification states it, fails: when the bind succeeds and the group
  lookup returns an error, \<^verbatim>\<open>LdapSignIn\<close> returns \<^verbatim>\<open>user, nil, true\<close>. With no
  group allow-list configured, \<^verbatim>\<open>SignIn\<close> then saves the session and redirects.
\<close>

theorem LdapSignIn_group_error_counterexample:
  "fst (ldap_Authenticate example_ldapClient_group_error ''carol'' ''pw'') = True
   \<and> snd (snd (ldap_Authenticate example_ldapClient_group_error ''carol'' ''pw'')) = None
   \<and> GetGroupsOfUser example_ldapClient_group_error ''uid=carol,dc=example''
      = ([], Some ''timeout'')
   \<and> LdapSignIn example_ext_group_error
        (with_form ''username'' ''carol'' (with_form ''password'' ''pw''
           (example_request\<lparr>Method := ''POST'', URL_Path := ''/ldap/sign_in''\<rparr>)))
      = (''carol'', [], True)
   \<and> SignIn example_proxy example_ext_group_error
        (with_form ''username'' ''carol'' (with_form ''password'' ''pw''
           (example_request\<lparr>Method := ''POST'', URL_Path := ''/ldap/sign_in''\<rparr>)))
      = [SaveSession_call \<lparr>User = ''carol'', Email = []\<rparr>, Redirect ''/'' StatusFound]"
  by (simp add: SignIn_def LdapSignIn_def ManualSignIn_def GetRedirect_def HasPrefix_def
      example_defs Let_def)

text \<open>
  Claim C3, amended: when the bind succeeds and the group lookup returns an error,
  \<^verbatim>\<open>LdapSignIn\<close> reports the user as authenticated, with no groups. The sign-in
  handler then answers with the 401 sign-in page, without saving a session, when a group
  allow-list is configured, and saves the session and redirects when none is.
\<close>

theorem LdapSignIn_group_lookup_error:
  assumes "Form_Get req ''username'' = user" and "user \<noteq> []"
      and "NewLDAPClient ext = Inr ldapClient"
      and "ldap_Authenticate ldapClient user (Form_Get req ''password'') = (True, attributes, None)"
      and "GetGroupsOfUser ldapClient (attributes ''dn'') = (groups, Some err)"
  shows "LdapSignIn ext req = (user, [], True)
         \<and> (GetRedirect req = (redirect, None) \<and> snd (ManualSignIn p req) = False \<longrightarrow>
              SignIn p ext req =
                (if LdapGroups p \<noteq> [] then SignInPage p req StatusUnauthorized True
                 else [SaveSession_call \<lparr>User = user, Email = []\<rparr>,
                       Redirect redirect StatusFound]))"
proof -
  have l: "LdapSignIn ext req = (user, [], True)"
    using assms by (simp add: LdapSignIn_def Let_def)
  show ?thesis
    using l SignIn_after_LdapSignIn [of req redirect p ext user "[]"]
    by (simp add: sliceContainsString_no_groups)
qed

theorem LdapSignIn_group_lookup_error_witness:
  "LdapSignIn
        example_ext_group_error
        (with_form ''username'' ''carol'' (with_form ''password'' ''pw''
           (example_request\<lparr>Method := ''POST'', URL_Path := ''/ldap/sign_in''\<rparr>)))
      = (''carol'', [], True)
   \<and> SignIn (example_proxy\<lparr>LdapGroups := [''eng'']\<rparr>)
        example_ext_group_error
        (with_form ''username'' ''carol'' (with_form ''password'' ''pw''
           (example_request\<lparr>Method := ''POST'', URL_Path := ''/ldap/sign_in''\<rparr>)))
      = [ClearSessionCookie_call, WriteHeader StatusUnauthorized,
         Render_sign_in True ''/private/page'']"
  using LdapSignIn_group_lookup_error
    [of "with_form ''username'' ''carol'' (with_form ''password'' ''pw''
           (example_request\<lparr>Method := ''POST'', URL_Path := ''/ldap/sign_in''\<rparr>))"
        "''carol''"
        example_ext_group_error
        example_ldapClient_group_error
        "\<lambda>k. if k = ''dn'' then ''uid=carol,dc=example'' else []"
        "[]" "''timeout''" "''/''" "example_proxy\<lparr>LdapGroups := [''eng'']\<rparr>"]
  by (simp add: example_defs GetRedirect_def HasPrefix_def ManualSignIn_def SignInPage_def Let_def)

text \<open>The group allow-list is read by \<^verbatim>\<open>SignIn\<close> alone, after the local-file sign-in.\<close>

lemma ManualSignIn_LdapGroups: "ManualSignIn (p\<lparr>LdapGroups := gs\<rparr>) req = ManualSignIn p req"
  by (simp add: ManualSignIn_def Let_def)

lemma CheckBasicAuth_LdapGroups:
  "CheckBasicAuth (p\<lparr>LdapGroups := gs\<rparr>) ext req = CheckBasicAuth p ext req"
  by (simp add: CheckBasicAuth_def)

lemma auth_decide_LdapGroups:
  "auth_decide (p\<lparr>LdapGroups := gs\<rparr>) ext req = auth_decide p ext req"
  by (simp add: auth_decide_def auth_policy_def auth_refresh_due_def
      cong: option.case_cong if_cong prod.case_cong)

lemma auth_headers_LdapGroups: "auth_headers (p\<lparr>LdapGroups := gs\<rparr>) s = auth_headers p s"
  by (simp add: auth_headers_def)

lemma auth_finish_LdapGroups:
  "auth_finish (p\<lparr>LdapGroups := gs\<rparr>) ext req st = auth_finish p ext req st"
  by (simp add: auth_finish_def CheckBasicAuth_LdapGroups auth_headers_LdapGroups Let_def
      cong: option.case_cong)

lemma Authenticate_LdapGroups:
  "Authenticate (p\<lparr>LdapGroups := gs\<rparr>) ext req = Authenticate p ext req"
  by (simp add: Authenticate_def auth_decide_LdapGroups auth_finish_LdapGroups Let_def
      cong: option.case_cong)

text \<open>
  Claim C6: for a directory sign-in (the form parsed, the local-file sign-in did not accept,
  the directory accepted the user and returned groups) with a non-empty allow-list, the
  handler saves the session and redirects with 302 exactly when some allowed group and some
  fetched group are equal after \<^verbatim>\<open>strings.ToLower\<close>; otherwise it answers with the
  401 sign-in page and saves no session. A local-file sign-in is accepted whatever the
  allow-list is, and neither \<^verbatim>\<open>CheckBasicAuth\<close> nor \<^verbatim>\<open>Authenticate\<close> depends
  on it. The cookie is set by the \<^verbatim>\<open>SaveSession\<close> call.
\<close>

theorem SignIn_group_policy:
  "(GetRedirect req = (redirect, None) \<and> snd (ManualSignIn p req) = False
      \<and> LdapSignIn ext req = (user, groups, True) \<and> LdapGroups p \<noteq> [] \<longrightarrow>
      ((ToLower ext ` set (LdapGroups p) \<inter> ToLower ext ` set groups \<noteq> {} \<longrightarrow>
          SignIn p ext req =
            [SaveSession_call \<lparr>User = user, Email = []\<rparr>, Redirect redirect StatusFound])
       \<and> (ToLower ext ` set (LdapGroups p) \<inter> ToLower ext ` set groups = {} \<longrightarrow>
          SignIn p ext req =
            [ClearSessionCookie_call, WriteHeader StatusUnauthorized,
             Render_sign_in True
               (let url = (if Header_Get req ''X-Auth-Request-Redirect'' \<noteq> []
                           then Header_Get req ''X-Auth-Request-Redirect''
                           else RequestURI req)
                in if url = SignInPath p then ''/'' else url)]
          \<and> (\<forall>s. SaveSession_call s \<notin> set (SignIn p ext req)))))
   \<and> (GetRedirect req = (redirect, None) \<and> ManualSignIn p req = (user, True) \<longrightarrow>
        SignIn (p\<lparr>LdapGroups := gs\<rparr>) ext req =
          [SaveSession_call \<lparr>User = user, Email = []\<rparr>, Redirect redirect StatusFound])
   \<and> CheckBasicAuth (p\<lparr>LdapGroups := gs\<rparr>) ext req = CheckBasicAuth p ext req
   \<and> Authenticate (p\<lparr>LdapGroups := gs\<rparr>) ext req = Authenticate p ext req"
proof -
  have inter: "sliceContainsString ext a b \<longleftrightarrow> ToLower ext ` set a \<inter> ToLower ext ` set b \<noteq> {}"
    for a b
    by (auto simp: sliceContainsString_iff)
  have ldap: "SignIn p ext req =
        (if ToLower ext ` set (LdapGroups p) \<inter> ToLower ext ` set groups \<noteq> {}
         then [SaveSession_call \<lparr>User = user, Email = []\<rparr>, Redirect redirect StatusFound]
         else SignInPage p req StatusUnauthorized True)"
    if "GetRedirect req = (redirect, None)" "snd (ManualSignIn p req) = False"
       "LdapSignIn ext req = (user, groups, True)" "LdapGroups p \<noteq> []"
    using SignIn_after_LdapSignIn [OF that(1,2,3)] that(4) by (simp add: inter)
  have manual: "SignIn (p\<lparr>LdapGroups := gs\<rparr>) ext req =
          [SaveSession_call \<lparr>User = user, Email = []\<rparr>, Redirect redirect StatusFound]"
    if "GetRedirect req = (redirect, None)" "ManualSignIn p req = (user, True)"
    using SignIn_after_ManualSignIn [of req redirect "p\<lparr>LdapGroups := gs\<rparr>" user ext] that
    by (simp add: ManualSignIn_LdapGroups)
  show ?thesis
    using ldap manual
    by (simp add: CheckBasicAuth_LdapGroups Authenticate_LdapGroups SignInPage_def Let_def)
qed

theorem SignIn_group_policy_witness:
  "LdapSignIn example_ext
     (with_form ''username'' ''carol'' (with_form ''password'' ''pw''
        (example_request\<lparr>Method := ''POST'', URL_Path := ''/ldap/sign_in''\<rparr>)))
     = (''carol'', [''eng'', ''ops''], True)
   \<and> SignIn (example_proxy\<lparr>LdapGroups := [''admin'']\<rparr>) example_ext
       (with_form ''username'' ''carol'' (with_form ''password'' ''pw''
          (example_request\<lparr>Method := ''POST'', URL_Path := ''/ldap/sign_in''\<rparr>)))
     = [ClearSessionCookie_call, WriteHeader StatusUnauthorized,
        Render_sign_in True ''/private/page'']
   \<and> SignIn (example_proxy\<lparr>LdapGroups := [''Eng'']\<rparr>) example_ext
       (with_form ''username'' ''carol'' (with_form ''password'' ''pw''
          (example_request\<lparr>Method := ''POST'', URL_Path := ''/ldap/sign_in''\<rparr>)))
     = [SaveSession_call \<lparr>User = ''carol'', Email = []\<rparr>, Redirect ''/'' StatusFound]
   \<and> SignIn (example_proxy\<lparr>LdapGroups := [''admin'']\<rparr>) example_ext
       (with_form ''username'' ''alice'' (with_form ''password'' ''secret''
          (example_request\<lparr>Method := ''POST'', URL_Path := ''/ldap/sign_in''\<rparr>)))
     = [SaveSession_call \<lparr>User = ''alice'', Email = []\<rparr>, Redirect ''/'' StatusFound]"
  using
    SignIn_group_policy [of
       "with_form ''username'' ''carol'' (with_form ''password'' ''pw''
          (example_request\<lparr>Method := ''POST'', URL_Path := ''/ldap/sign_in''\<rparr>))"
       "''/''" "example_proxy\<lparr>LdapGroups := [''admin'']\<rparr>" example_ext "''carol''"
       "[''eng'', ''ops'']" "[''admin'']"]
    SignIn_group_policy [of
       "with_form ''username'' ''carol'' (with_form ''password'' ''pw''
          (example_request\<lparr>Method := ''POST'', URL_Path := ''/ldap/sign_in''\<rparr>))"
       "''/''" "example_proxy\<lparr>LdapGroups := [''Eng'']\<rparr>" example_ext "''carol''"
       "[''eng'', ''ops'']" "[''Eng'']"]
    SignIn_group_policy [of
       "with_form ''username'' ''alice'' (with_form ''password'' ''secret''
          (example_request\<lparr>Method := ''POST'', URL_Path := ''/ldap/sign_in''\<rparr>))"
       "''/''" example_proxy example_ext "''alice''" "[]" "[''admin'']"]
  by (simp add: example_defs GetRedirect_def HasPrefix_def ManualSignIn_def LdapSignIn_def
      Let_def)

section \<open>Authentication engine\<close>

text \<open>
  Facts about the state at the save: a loaded session that is gone has had its cookie
  cleared; a session that is still there is the loaded one, has passed the identity-allow
  predicate and is not expired.
\<close>

lemma auth_decide_dropped:
  assumes "LoadCookiedSession ext req = (Some s, age, err)"
      and "session (auth_decide p ext req) = None"
  shows "clearSession (auth_decide p ext req)"
  using assms
  by (auto simp: auth_decide_def auth_policy_def auth_validate_def auth_expired_def
      auth_refresh_hook_def auth_refresh_due_def
      split: option.splits prod.splits if_splits)

lemma auth_decide_session:
  assumes "LoadCookiedSession ext req = (l, age, err)"
  shows "session (auth_decide p ext req) = None \<or> session (auth_decide p ext req) = l"
  using assms
  by (auto simp: auth_decide_def auth_policy_def auth_validate_def auth_expired_def
      auth_refresh_hook_def auth_refresh_due_def
      split: option.splits prod.splits if_splits)

lemma auth_decide_policy:
  assumes "session (auth_decide p ext req) = Some s"
  shows "Email s = [] \<or> Validator p (Email s)"
  using assms
  by (auto simp: auth_decide_def auth_policy_def split: option.splits prod.splits if_splits)

lemma auth_decide_not_expired:
  assumes "session (auth_decide p ext req) = Some s"
  shows "\<not> IsExpired ext s"
  using assms
  by (auto simp: auth_decide_def auth_policy_def auth_validate_def auth_expired_def
      split: option.splits prod.splits if_splits)

lemma Authenticate_dropped:
  assumes "session (auth_decide p ext req) = None"
  shows "Authenticate p ext req =
           (case fst (CheckBasicAuth p ext req) of
              None \<Rightarrow> (StatusForbidden,
                        if clearSession (auth_decide p ext req) then [ClearSessionCookie_call] else [])
            | Some b \<Rightarrow> (StatusAccepted,
                         (if clearSession (auth_decide p ext req) then [ClearSessionCookie_call] else [])
                         @ auth_headers p b))"
  using assms by (simp add: Authenticate_def auth_finish_def Let_def split: option.splits)

lemma auth_headers_no_save: "SaveSession_call s' \<notin> set (auth_headers p s)"
  by (simp add: auth_headers_def)

text \<open>
  Claim C1, as the specification states it, fails: once the session is dropped,
  \<^verbatim>\<open>Authenticate\<close> falls back to the Basic-Auth provider. A request with the cookie of
  a session whose email the predicate rejects and with an \<^verbatim>\<open>Authorization\<close> header that
  the credential file accepts is answered with 202, as the Basic-Auth user.
\<close>

theorem Authenticate_policy_denial_counterexample:
  "LoadCookiedSession example_ext
     (with_header ''Cookie'' ''_ldap_proxy=bob''
        (with_header ''Authorization'' ''Basic YWxpY2U6c2VjcmV0'' example_request))
     = (Some \<lparr>User = ''bob'', Email = ''bob@example.com''\<rparr>, 120, None)
   \<and> \<not> IsExpired example_ext \<lparr>User = ''bob'', Email = ''bob@example.com''\<rparr>
   \<and> \<not> Validator example_proxy_rejecting ''bob@example.com''
   \<and> Authenticate example_proxy_rejecting example_ext
        (with_header ''Cookie'' ''_ldap_proxy=bob''
           (with_header ''Authorization'' ''Basic YWxpY2U6c2VjcmV0'' example_request))
      = (StatusAccepted, [ClearSessionCookie_call, Set_response_header ''LAP-Auth'' ''alice''])"
  by (simp add: Authenticate_def auth_decide_def auth_finish_def auth_policy_def
      auth_validate_def auth_expired_def auth_refresh_hook_def auth_refresh_due_def
      auth_headers_def CheckBasicAuth_def SplitN_2_def example_defs Let_def)

text \<open>
  Claim C1, amended: for every request whose loaded session has a non-empty email that the
  identity-allow predicate rejects, whatever the signature and expiry checks said,
  \<^verbatim>\<open>Authenticate\<close> drops the session, saves no cookie, clears the cookie, and returns
  Forbidden (403) unless the Basic-Auth fallback yields a session; then it returns
  Accepted (202) with the headers of the Basic-Auth user.
\<close>

theorem Authenticate_policy_denial:
  assumes "LoadCookiedSession ext req = (Some s, age, err)"
      and "Email s \<noteq> []"
      and "\<not> Validator p (Email s)"
  shows "session (auth_decide p ext req) = None
         \<and> clearSession (auth_decide p ext req)
         \<and> Authenticate p ext req =
             (case fst (CheckBasicAuth p ext req) of
                None \<Rightarrow> (StatusForbidden, [ClearSessionCookie_call])
              | Some b \<Rightarrow> (StatusAccepted, ClearSessionCookie_call # auth_headers p b))"
proof -
  have dropped: "session (auth_decide p ext req) = None"
  proof (rule ccontr)
    assume "session (auth_decide p ext req) \<noteq> None"
    then have "session (auth_decide p ext req) = Some s"
      using auth_decide_session [OF assms(1), of p] by auto
    then show False
      using auth_decide_policy [of p ext req s] assms(2,3) by simp
  qed
  have cleared: "clearSession (auth_decide p ext req)"
    using auth_decide_dropped [OF assms(1) dropped] .
  show ?thesis
    using dropped cleared Authenticate_dropped [OF dropped]
    by (simp split: option.splits)
qed

theorem Authenticate_policy_denial_witness:
  "LoadCookiedSession example_ext (with_header ''Cookie'' ''_ldap_proxy=bob'' example_request)
     = (Some \<lparr>User = ''bob'', Email = ''bob@example.com''\<rparr>, 120, None)
   \<and> \<not> Validator example_proxy_rejecting ''bob@example.com''
   \<and> Authenticate example_proxy_rejecting example_ext
        (with_header ''Cookie'' ''_ldap_proxy=bob'' example_request)
      = (StatusForbidden, [ClearSessionCookie_call])"
  using Authenticate_policy_denial
    [of example_ext "with_header ''Cookie'' ''_ldap_proxy=bob'' example_request"
        "\<lparr>User = ''bob'', Email = ''bob@example.com''\<rparr>" 120 None
        example_proxy_rejecting]
  by (simp add: example_defs CheckBasicAuth_def)

text \<open>
  Claim C4: a session that \<^verbatim>\<open>IsExpired\<close> reports as past its lifetime is dropped by
  the expiry block, which sets \<^verbatim>\<open>saveSession\<close> to false and \<^verbatim>\<open>clearSession\<close> to
  true, whatever the flags were (a pending refresh-driven save included). For every request
  whose loaded session is expired the session is gone at the save, the cookie is cleared,
  no \<^verbatim>\<open>SaveSession\<close> call is made and no server error is returned; \<^verbatim>\<open>saveSession\<close>
  is false there whenever the session reached the expiry block, that is, whenever the
  refresh hook returned no error.
\<close>

theorem Authenticate_expired_session:
  "(session st = Some s \<and> IsExpired ext s \<longrightarrow>
      auth_expired ext st = st\<lparr>session := None, saveSession := False, clearSession := True\<rparr>)
   \<and> (LoadCookiedSession ext req = (Some s, age, err) \<and> IsExpired ext s \<longrightarrow>
        session (auth_decide p ext req) = None
        \<and> clearSession (auth_decide p ext req)
        \<and> (snd (RefreshSessionIfNeeded ext (Some s)) = None \<longrightarrow>
             \<not> saveSession (auth_decide p ext req))
        \<and> (\<forall>s'. SaveSession_call s' \<notin> set (snd (Authenticate p ext req)))
        \<and> ClearSessionCookie_call \<in> set (snd (Authenticate p ext req))
        \<and> fst (Authenticate p ext req) \<noteq> StatusInternalServerError)"
proof -
  have step: "auth_expired ext st = st\<lparr>session := None, saveSession := False, clearSession := True\<rparr>"
    if "session st = Some s" "IsExpired ext s"
    using that by (simp add: auth_expired_def)
  have request: "session (auth_decide p ext req) = None
        \<and> clearSession (auth_decide p ext req)
        \<and> (snd (RefreshSessionIfNeeded ext (Some s)) = None \<longrightarrow>
             \<not> saveSession (auth_decide p ext req))
        \<and> (\<forall>s'. SaveSession_call s' \<notin> set (snd (Authenticate p ext req)))
        \<and> ClearSessionCookie_call \<in> set (snd (Authenticate p ext req))
        \<and> fst (Authenticate p ext req) \<noteq> StatusInternalServerError"
    if loaded: "LoadCookiedSession ext req = (Some s, age, err)" and expired: "IsExpired ext s"
  proof -
    have dropped: "session (auth_decide p ext req) = None"
    proof (rule ccontr)
      assume "session (auth_decide p ext req) \<noteq> None"
      then have "session (auth_decide p ext req) = Some s"
        using auth_decide_session [OF loaded, of p] by auto
      then show False
        using auth_decide_not_expired [of p ext req s] expired by simp
    qed
    have cleared: "clearSession (auth_decide p ext req)"
      using auth_decide_dropped [OF loaded dropped] .
    have flag: "\<not> saveSession (auth_decide p ext req)"
      if "snd (RefreshSessionIfNeeded ext (Some s)) = None"
      using that loaded expired
      by (auto simp: auth_decide_def auth_policy_def auth_validate_def auth_expired_def
          auth_refresh_hook_def auth_refresh_due_def
          split: option.splits prod.splits if_splits)
    show ?thesis
      using dropped cleared flag Authenticate_dropped [OF dropped]
      by (simp add: auth_headers_no_save split: option.splits)
  qed
  show ?thesis using step request by blast
qed

theorem Authenticate_expired_session_witness:
  "LoadCookiedSession example_ext (with_header ''Cookie'' ''_ldap_proxy=bob'' example_request)
     = (Some \<lparr>User = ''bob'', Email = ''bob@example.com''\<rparr>, 120, None)
   \<and> CookieExpire (example_proxy\<lparr>CookieExpire := 60, CookieRefresh := 30\<rparr>) < 120
   \<and> saveSession (auth_refresh_due (example_proxy\<lparr>CookieExpire := 60, CookieRefresh := 30\<rparr>) 120
        \<lparr>session = Some \<lparr>User = ''bob'', Email = ''bob@example.com''\<rparr>, saveSession = False,
         clearSession = False, revalidated = False\<rparr>)
   \<and> Authenticate (example_proxy\<lparr>CookieExpire := 60, CookieRefresh := 30\<rparr>)
        (example_ext\<lparr>IsExpired := (\<lambda>s. (60::int) < 120)\<rparr>)
        (with_header ''Cookie'' ''_ldap_proxy=bob'' example_request)
      = (StatusForbidden, [ClearSessionCookie_call])"
  using Authenticate_expired_session
    [of "\<lparr>session = Some \<lparr>User = ''bob'', Email = ''bob@example.com''\<rparr>, saveSession = True,
         clearSession = False, revalidated = False\<rparr>"
        "\<lparr>User = ''bob'', Email = ''bob@example.com''\<rparr>"
        "example_ext\<lparr>IsExpired := (\<lambda>s. (60::int) < 120)\<rparr>"
        "with_header ''Cookie'' ''_ldap_proxy=bob'' example_request" 120 None
        "example_proxy\<lparr>CookieExpire := 60, CookieRefresh := 30\<rparr>"]
  by (simp add: example_defs Authenticate_def auth_decide_def auth_finish_def auth_policy_def
      auth_validate_def auth_expired_def auth_refresh_hook_def auth_refresh_due_def
      CheckBasicAuth_def Let_def)

lemma auth_finish_status:
  "fst (auth_finish p ext req st) = StatusAccepted \<or> fst (auth_finish p ext req st) = StatusForbidden"
  by (simp add: auth_finish_def Let_def split: option.splits)

text \<open>
  Claim C8: when \<^verbatim>\<open>Authenticate\<close> reaches the save with \<^verbatim>\<open>saveSession\<close> set and a
  session present, and \<^verbatim>\<open>SaveSession\<close> returns an error, it returns 500 at once: the
  failed call is its only effect (no cookie clearing, no header, and the answer does not
  depend on the Basic-Auth fallback), and \<^verbatim>\<open>Proxy\<close> renders the error page. A return
  of 500 happens on this path only; every run returns 202, 403 or 500.
\<close>

theorem Authenticate_internal_error:
  "(saveSession (auth_decide p ext req) \<and> session (auth_decide p ext req) = Some s
      \<and> SaveSession ext req s = Some err \<longrightarrow>
      Authenticate p ext req = (StatusInternalServerError, [SaveSession_call s])
      \<and> Proxy p ext req =
          [SaveSession_call s, WriteHeader StatusInternalServerError,
           Render_error StatusInternalServerError ''Internal Error'' ''Internal Error''])
   \<and> (fst (Authenticate p ext req) = StatusInternalServerError \<longrightarrow>
        (\<exists>s err. saveSession (auth_decide p ext req) \<and> session (auth_decide p ext req) = Some s
           \<and> SaveSession ext req s = Some err))
   \<and> (fst (Authenticate p ext req) = StatusAccepted
        \<or> fst (Authenticate p ext req) = StatusForbidden
        \<or> fst (Authenticate p ext req) = StatusInternalServerError)"
proof -
  have fails: "Authenticate p ext req = (StatusInternalServerError, [SaveSession_call s])"
    if "saveSession (auth_decide p ext req)" "session (auth_decide p ext req) = Some s"
       "SaveSession ext req s = Some err"
    using that by (simp add: Authenticate_def Let_def)
  have proxy: "Proxy p ext req =
          [SaveSession_call s, WriteHeader StatusInternalServerError,
           Render_error StatusInternalServerError ''Internal Error'' ''Internal Error'']"
    if "saveSession (auth_decide p ext req)" "session (auth_decide p ext req) = Some s"
       "SaveSession ext req s = Some err"
    using fails [OF that] by (simp add: Proxy_def ErrorPage_def)
  have only: "\<exists>s err. saveSession (auth_decide p ext req)
           \<and> session (auth_decide p ext req) = Some s \<and> SaveSession ext req s = Some err"
    if "fst (Authenticate p ext req) = StatusInternalServerError"
    using that auth_finish_status [of p ext req "auth_decide p ext req"]
    by (auto simp: Authenticate_def Let_def split: option.splits if_splits prod.splits)
  have range: "fst (Authenticate p ext req) = StatusAccepted
        \<or> fst (Authenticate p ext req) = StatusForbidden
        \<or> fst (Authenticate p ext req) = StatusInternalServerError"
    using auth_finish_status [of p ext req "auth_decide p ext req"]
    by (auto simp: Authenticate_def Let_def split: option.splits if_splits prod.splits)
  show ?thesis using fails proxy only range by blast
qed

theorem Authenticate_internal_error_witness:
  "saveSession (auth_decide (example_proxy\<lparr>CookieRefresh := 30\<rparr>)
       (example_ext\<lparr>SaveSession := (\<lambda>req s. Some ''cipher failure'')\<rparr>)
       (with_header ''Cookie'' ''_ldap_proxy=bob''
          (with_header ''Authorization'' ''Basic YWxpY2U6c2VjcmV0'' example_request)))
   \<and> session (auth_decide (example_proxy\<lparr>CookieRefresh := 30\<rparr>)
       (example_ext\<lparr>SaveSession := (\<lambda>req s. Some ''cipher failure'')\<rparr>)
       (with_header ''Cookie'' ''_ldap_proxy=bob''
          (with_header ''Authorization'' ''Basic YWxpY2U6c2VjcmV0'' example_request)))
      = Some \<lparr>User = ''bob'', Email = ''bob@example.com''\<rparr>
   \<and> Authenticate (example_proxy\<lparr>CookieRefresh := 30\<rparr>)
       (example_ext\<lparr>SaveSession := (\<lambda>req s. Some ''cipher failure'')\<rparr>)
       (with_header ''Cookie'' ''_ldap_proxy=bob''
          (with_header ''Authorization'' ''Basic YWxpY2U6c2VjcmV0'' example_request))
      = (StatusInternalServerError,
         [SaveSession_call \<lparr>User = ''bob'', Email = ''bob@example.com''\<rparr>])"
  using Authenticate_internal_error
    [of "example_proxy\<lparr>CookieRefresh := 30\<rparr>"
        "example_ext\<lparr>SaveSession := (\<lambda>req s. Some ''cipher failure'')\<rparr>"
        "with_header ''Cookie'' ''_ldap_proxy=bob''
          (with_header ''Authorization'' ''Basic YWxpY2U6c2VjcmV0'' example_request)"
        "\<lparr>User = ''bob'', Email = ''bob@example.com''\<rparr>" "''cipher failure''"]
  by (simp add: example_defs auth_decide_def auth_policy_def auth_validate_def
      auth_expired_def auth_refresh_hook_def auth_refresh_due_def)

text \<open>The identity-allow predicate is read by the policy block of \<^verbatim>\<open>Authenticate\<close> alone.\<close>

lemma CheckBasicAuth_Validator:
  "CheckBasicAuth (p\<lparr>Validator := v\<rparr>) ext req = CheckBasicAuth p ext req"
  by (simp add: CheckBasicAuth_def)

lemma auth_headers_Validator: "auth_headers (p\<lparr>Validator := v\<rparr>) s = auth_headers p s"
  by (simp add: auth_headers_def)

lemma auth_finish_Validator:
  "auth_finish (p\<lparr>Validator := v\<rparr>) ext req st = auth_finish p ext req st"
  by (simp add: auth_finish_def CheckBasicAuth_Validator auth_headers_Validator Let_def
      cong: option.case_cong)

lemma auth_policy_no_email:
  assumes "\<forall>s. session st = Some s \<longrightarrow> Email s = []"
  shows "auth_policy p st = st"
  using assms by (simp add: auth_policy_def split: option.splits)

lemma auth_before_policy_session:
  "session (auth_validate ext (auth_expired ext (auth_refresh_hook ext
      (auth_refresh_due p age st)))) = None
   \<or> session (auth_validate ext (auth_expired ext (auth_refresh_hook ext
      (auth_refresh_due p age st)))) = session st"
  by (auto simp: auth_validate_def auth_expired_def auth_refresh_hook_def auth_refresh_due_def
      split: option.splits prod.splits if_splits)

lemma auth_refresh_due_Validator:
  "auth_refresh_due (p\<lparr>Validator := v\<rparr>) age st = auth_refresh_due p age st"
  by (simp add: auth_refresh_due_def)

lemma auth_decide_Validator:
  assumes "\<forall>s. fst (LoadCookiedSession ext req) = Some s \<longrightarrow> Email s = []"
  shows "auth_decide (p\<lparr>Validator := v\<rparr>) ext req = auth_decide p ext req"
proof -
  obtain l age err where loaded: "LoadCookiedSession ext req = (l, age, err)"
    by (cases "LoadCookiedSession ext req") auto
  define st where "st = auth_validate ext (auth_expired ext (auth_refresh_hook ext
      (auth_refresh_due p age
         \<lparr>session = l, saveSession = False, clearSession = False, revalidated = False\<rparr>)))"
  have "session st = None \<or> session st = l"
    unfolding st_def
    using auth_before_policy_session
      [of ext p age "\<lparr>session = l, saveSession = False, clearSession = False, revalidated = False\<rparr>"]
    by simp
  then have "\<forall>s. session st = Some s \<longrightarrow> Email s = []"
    using assms loaded by auto
  then have "auth_policy (p\<lparr>Validator := v\<rparr>) st = st" "auth_policy p st = st"
    by (simp_all add: auth_policy_no_email)
  then show ?thesis
    using loaded by (simp add: auth_decide_def auth_refresh_due_Validator st_def)
qed

lemma auth_headers_LAP_Auth:
  "Set_response_header ''LAP-Auth'' v \<in> set (auth_headers p s) \<longleftrightarrow>
     v = (if Email s = [] then User s else Email s)"
  by (auto simp: auth_headers_def)

text \<open>
  Claim C10: a session returned by \<^verbatim>\<open>CheckBasicAuth\<close> has an empty email, and the
  session that \<^verbatim>\<open>SignIn\<close> saves after a local-file sign-in has the user set and an
  empty email. The policy block leaves a session with an empty email as it is, whatever
  the identity-allow predicate; \<^verbatim>\<open>Authenticate\<close> gives the same result under any
  predicate when the loaded session, if any, has an empty email (a Basic-Auth session is
  created after the policy block). When the Basic-Auth fallback authenticates the request,
  the \<^verbatim>\<open>LAP-Auth\<close> header is set to the user name and to nothing else.
\<close>

theorem user_only_sessions:
  "(fst (CheckBasicAuth p ext req) = Some b \<longrightarrow> Email b = [])
   \<and> (GetRedirect req = (redirect, None) \<and> ManualSignIn p req = (user, True) \<longrightarrow>
        SignIn p ext req =
          [SaveSession_call \<lparr>User = user, Email = []\<rparr>, Redirect redirect StatusFound])
   \<and> (session st = Some s \<and> Email s = [] \<longrightarrow> auth_policy (p\<lparr>Validator := v\<rparr>) st = st)
   \<and> ((\<forall>s. fst (LoadCookiedSession ext req) = Some s \<longrightarrow> Email s = []) \<longrightarrow>
        Authenticate (p\<lparr>Validator := v\<rparr>) ext req = Authenticate p ext req)
   \<and> (session (auth_decide p ext req) = None \<and> fst (CheckBasicAuth p ext req) = Some b \<longrightarrow>
        fst (Authenticate p ext req) = StatusAccepted
        \<and> (\<forall>h. Set_response_header ''LAP-Auth'' h \<in> set (snd (Authenticate p ext req))
                \<longleftrightarrow> h = User b))"
proof -
  have basic: "Email b = []" if "fst (CheckBasicAuth p ext req) = Some b"
    using that
    by (auto simp: CheckBasicAuth_def Let_def split: option.splits if_splits sum.splits)
  have manual: "SignIn p ext req =
          [SaveSession_call \<lparr>User = user, Email = []\<rparr>, Redirect redirect StatusFound]"
    if "GetRedirect req = (redirect, None)" "ManualSignIn p req = (user, True)"
    using SignIn_after_ManualSignIn [OF that] .
  have policy: "auth_policy (p\<lparr>Validator := v\<rparr>) st = st" if "session st = Some s" "Email s = []"
    using that by (simp add: auth_policy_no_email)
  have frame: "Authenticate (p\<lparr>Validator := v\<rparr>) ext req = Authenticate p ext req"
    if "\<forall>s. fst (LoadCookiedSession ext req) = Some s \<longrightarrow> Email s = []"
    using auth_decide_Validator [OF that, where p = p and v = v]
    by (simp add: Authenticate_def auth_finish_Validator Let_def cong: option.case_cong)
  have trust: "fst (Authenticate p ext req) = StatusAccepted
        \<and> (\<forall>h. Set_response_header ''LAP-Auth'' h \<in> set (snd (Authenticate p ext req))
                \<longleftrightarrow> h = User b)"
    if dropped: "session (auth_decide p ext req) = None"
      and fallback: "fst (CheckBasicAuth p ext req) = Some b"
    using Authenticate_dropped [OF dropped] fallback basic [OF fallback]
    by (simp add: auth_headers_LAP_Auth)
  show ?thesis using basic manual policy frame trust by blast
qed

theorem user_only_sessions_witness:
  "CheckBasicAuth example_proxy example_ext
     (with_header ''Authorization'' ''Basic YWxpY2U6c2VjcmV0'' example_request)
     = (Some \<lparr>User = ''alice'', Email = []\<rparr>, None)
   \<and> Authenticate example_proxy_rejecting example_ext
       (with_header ''Authorization'' ''Basic YWxpY2U6c2VjcmV0'' example_request)
     = (StatusAccepted, [Set_response_header ''LAP-Auth'' ''alice''])
   \<and> SignIn example_proxy example_ext
       (with_form ''username'' ''alice'' (with_form ''password'' ''secret''
          (example_request\<lparr>Method := ''POST'', URL_Path := ''/ldap/sign_in''\<rparr>)))
     = [SaveSession_call \<lparr>User = ''alice'', Email = []\<rparr>, Redirect ''/'' StatusFound]"
  using
    user_only_sessions [of example_proxy example_ext
       "with_header ''Authorization'' ''Basic YWxpY2U6c2VjcmV0'' example_request"
       "\<lparr>User = ''alice'', Email = []\<rparr>" "''/''" "''alice''"
       "\<lparr>session = Some \<lparr>User = ''alice'', Email = []\<rparr>, saveSession = False,
         clearSession = False, revalidated = False\<rparr>"
       "\<lparr>User = ''alice'', Email = []\<rparr>" "\<lambda>email. False"]
    user_only_sessions [of example_proxy example_ext
       "with_form ''username'' ''alice'' (with_form ''password'' ''secret''
          (example_request\<lparr>Method := ''POST'', URL_Path := ''/ldap/sign_in''\<rparr>))"
       "\<lparr>User = ''alice'', Email = []\<rparr>" "''/''" "''alice''"
       "\<lparr>session = Some \<lparr>User = ''alice'', Email = []\<rparr>, saveSession = False,
         clearSession = False, revalidated = False\<rparr>"
       "\<lparr>User = ''alice'', Email = []\<rparr>" "\<lambda>email. False"]
  by (simp add: example_defs CheckBasicAuth_def SplitN_2_def Authenticate_def auth_decide_def
      auth_finish_def auth_policy_def auth_validate_def auth_expired_def auth_refresh_hook_def
      auth_refresh_due_def auth_headers_def GetRedirect_def HasPrefix_def ManualSignIn_def
      Let_def)

end
